theory Spec2Isabelle
  imports Main "HOL-Library.Word"
begin

section \<open>The OpenSearch curator client (package opensearchmanager)\<close>

text \<open>
  A shallow embedding of \<^verbatim>\<open>opensearchmanager/curator.go\<close>. Every operation of the
  client is a function from the world before the call to its result and the world after
  it. The world records the requests handed to \<^verbatim>\<open>doRequest\<close>, in order,
  and the wall clock. The cluster is a parameter: it answers a request with a transport
  error or a response, and says what the clock shows afterwards. The functions of Go's
  standard library whose results the client only passes on (the JSON codec, the glob
  matcher, the time parser and calendar arithmetic) are parameters as well, collected in
  the record \<open>golib\<close>; \<^verbatim>\<open>strconv.ParseInt\<close>, \<^verbatim>\<open>strings.Join\<close> and
  \<^verbatim>\<open>strings.HasPrefix\<close> are written out.
\<close>

subsection \<open>Values, errors and the world\<close>

text \<open>Go values of type \<^verbatim>\<open>interface{}\<close>, as far as the client builds them.\<close>

datatype gvalue =
    VNil
  | VBool bool
  | VInt int
  | VString string
  | VSlice "gvalue list"
  | VMap "string \<Rightarrow> gvalue option"
  | VStruct "(string \<times> gvalue) list"
  | VOther nat

type_synonym gmap = "string \<Rightarrow> gvalue option"

text \<open>
  Reading a Go map at a key that is absent (or reading a nil map) gives the zero value
  of the element type, for \<^verbatim>\<open>interface{}\<close> that is nil.
\<close>

definition index_map :: "gmap \<Rightarrow> string \<Rightarrow> gvalue" where
  "index_map m k = (case m k of None \<Rightarrow> VNil | Some v \<Rightarrow> v)"

text \<open>
  Errors. \<open>LibError\<close> is an error made outside the client (net/http, encoding/json),
  \<open>Errorf\<close> the result of \<^verbatim>\<open>fmt.Errorf\<close> with a format that has no
  \<^verbatim>\<open>%w\<close>, given by its formatted text, and \<open>Wrapf p e\<close> the result of
  \<^verbatim>\<open>fmt.Errorf(p + "%w", e)\<close>.
\<close>

datatype error =
    LibError string
  | Errorf string
  | Wrapf string error

fun Error :: "error \<Rightarrow> string" where
  "Error (LibError s) = s"
| "Error (Errorf s) = s"
| "Error (Wrapf p e) = p @ Error e"

type_synonym Time = int

text \<open>
  An instant, in nanoseconds since January 1, year 1, 00:00:00 UTC; Go's zero
  \<^verbatim>\<open>time.Time{}\<close> is that instant.
\<close>

definition zeroTime :: Time where
  "zeroTime = 0"

definition Before :: "Time \<Rightarrow> Time \<Rightarrow> bool" where
  "Before t u = (t < u)"

record request =
  Method :: string
  Path :: string
  ReqBody :: "string option"

record response =
  StatusCode :: int
  Body :: string

record world =
  Sent :: "request list"
  Clock :: Time

type_synonym cluster = "world \<Rightarrow> request \<Rightarrow> (error + response) \<times> Time"

text \<open>
  \<^verbatim>\<open>doRequest\<close>: one attempt, no retry. The request is recorded, the cluster
  answers. An error of \<^verbatim>\<open>http.NewRequestWithContext\<close> or of
  \<^verbatim>\<open>HTTPClient.Do\<close> is the \<open>Inl\<close> answer.
\<close>

definition doRequest ::
  "cluster \<Rightarrow> string \<Rightarrow> string \<Rightarrow> string option \<Rightarrow> world \<Rightarrow> (error + response) \<times> world" where
  "doRequest srv method path body w =
     (let req = \<lparr>Method = method, Path = path, ReqBody = body\<rparr>;
          (res, t) = srv w req
      in (res, \<lparr>Sent = Sent w @ [req], Clock = t\<rparr>))"

subsection \<open>Standard library\<close>

text \<open>\<^verbatim>\<open>strings.Join(elems, sep)\<close> and \<^verbatim>\<open>strings.HasPrefix(s, prefix)\<close>.\<close>

fun Join :: "string list \<Rightarrow> string \<Rightarrow> string" where
  "Join [] sep = []"
| "Join [e] sep = e"
| "Join (e # es) sep = e @ sep @ Join es sep"

definition HasPrefix :: "string \<Rightarrow> string \<Rightarrow> bool" where
  "HasPrefix s prefix = (length s \<ge> length prefix \<and> take (length prefix) s = prefix)"

text \<open>
  \<^verbatim>\<open>strconv.ParseUint(s, 10, 64)\<close> and \<^verbatim>\<open>strconv.ParseInt(s, 10, 64)\<close>,
  with the value they return beside the error.
\<close>

datatype num_error = ErrSyntax | ErrRange

definition maxUint64 :: "64 word" where
  "maxUint64 = 18446744073709551615"

definition lower :: "nat \<Rightarrow> nat" where
  "lower c = or c 32"

fun ParseUint_loop :: "string \<Rightarrow> 64 word \<Rightarrow> 64 word \<times> num_error option" where
  "ParseUint_loop [] n = (n, None)"
| "ParseUint_loop (c # cs) n =
     (let b = (of_char c :: nat) in
      if \<not> (48 \<le> b \<and> b \<le> 57) \<and> \<not> (97 \<le> lower b \<and> lower b \<le> 122)
      then (0, Some ErrSyntax)
      else
        let d = (if 48 \<le> b \<and> b \<le> 57 then b - 48 else lower b - 97 + 10) in
        if d \<ge> 10 then (0, Some ErrSyntax)
        else if n \<ge> maxUint64 div 10 + 1 then (maxUint64, Some ErrRange)
        else
          let n10 = n * 10;
              n1 = n10 + of_nat d
          in if n1 < n10 \<or> n1 > maxUint64 then (maxUint64, Some ErrRange)
             else ParseUint_loop cs n1)"

definition ParseUint :: "string \<Rightarrow> 64 word \<times> num_error option" where
  "ParseUint s = (if s = [] then (0, Some ErrSyntax) else ParseUint_loop s 0)"

definition ParseInt :: "string \<Rightarrow> 64 word \<times> num_error option" where
  "ParseInt s0 =
     (if s0 = [] then (0, Some ErrSyntax)
      else
        let neg = (hd s0 = CHR ''-'');
            s = (if hd s0 = CHR ''+'' \<or> hd s0 = CHR ''-'' then tl s0 else s0);
            (un, err) = ParseUint s;
            cutoff = (push_bit 63 1 :: 64 word)
        in if err \<noteq> None \<and> err \<noteq> Some ErrRange then (0, err)
           else if \<not> neg \<and> un \<ge> cutoff then (cutoff - 1, Some ErrRange)
           else if neg \<and> un > cutoff then (- cutoff, Some ErrRange)
           else (if neg then - un else un, None))"

text \<open>
  What the client takes from the rest of the standard library. Each function returns
  what the Go function returns, an error beside a value where Go does.
  \<^item> \<open>json_Decode\<close>: \<^verbatim>\<open>json.NewDecoder(r).Decode(&indices)\<close> on a body, for the
    record type of \<^verbatim>\<open>ListIndices\<close>;
  \<^item> \<open>json_Marshal\<close>: \<^verbatim>\<open>json.Marshal(v)\<close>;
  \<^item> \<open>filepath_Match\<close>: \<^verbatim>\<open>filepath.Match(pattern, name)\<close>;
  \<^item> \<open>time_Parse\<close>: \<^verbatim>\<open>time.Parse(time.RFC3339, s)\<close>;
  \<^item> \<open>AddDate\<close>: \<^verbatim>\<open>t.AddDate(years, months, days)\<close>, the arguments being Go
    \<^verbatim>\<open>int\<close>s (64 bits).
\<close>

record cat_index =
  index :: string
  status :: string
  docs_count :: string
  store_size :: string
  creation_date_string :: string

record golib =
  json_Decode :: "string \<Rightarrow> error + cat_index list"
  json_Marshal :: "gvalue \<Rightarrow> error + string"
  filepath_Match :: "string \<Rightarrow> string \<Rightarrow> bool \<times> error option"
  time_Parse :: "string \<Rightarrow> Time \<times> error option"
  AddDate :: "Time \<Rightarrow> 64 word \<Rightarrow> 64 word \<Rightarrow> 64 word \<Rightarrow> Time"

subsection \<open>ListIndices\<close>

record IndexInfo =
  Name :: string
  Status :: string
  DocsCount :: "64 word"
  StoreSize :: string
  CreateTime :: Time

fun ListIndices_loop :: "golib \<Rightarrow> cat_index list \<Rightarrow> IndexInfo list \<Rightarrow> IndexInfo list" where
  "ListIndices_loop L [] result = result"
| "ListIndices_loop L (idx # indices) result =
     (let createTime = fst (time_Parse L (creation_date_string idx))
      in ListIndices_loop L indices
           (result @ [\<lparr>Name = index idx,
                        Status = status idx,
                        DocsCount = fst (ParseInt (docs_count idx)),
                        StoreSize = store_size idx,
                        CreateTime = createTime\<rparr>]))"

definition ListIndices :: "golib \<Rightarrow> cluster \<Rightarrow> world \<Rightarrow> (error + IndexInfo list) \<times> world" where
  "ListIndices L srv w =
     (case doRequest srv ''GET'' ''/_cat/indices?format=json'' None w of
        (Inl err, w1) \<Rightarrow> (Inl err, w1)
      | (Inr resp, w1) \<Rightarrow>
          (case json_Decode L (Body resp) of
             Inl err \<Rightarrow> (Inl err, w1)
           | Inr indices \<Rightarrow> (Inr (ListIndices_loop L indices []), w1)))"

subsection \<open>Operations by pattern and by age\<close>

fun DeleteIndices_loop :: "golib \<Rightarrow> string \<Rightarrow> IndexInfo list \<Rightarrow> string list \<Rightarrow> string list" where
  "DeleteIndices_loop L indexPattern [] toDelete = toDelete"
| "DeleteIndices_loop L indexPattern (idx # indices) toDelete =
     (if fst (filepath_Match L indexPattern (Name idx))
      then DeleteIndices_loop L indexPattern indices (toDelete @ [Name idx])
      else DeleteIndices_loop L indexPattern indices toDelete)"

definition DeleteIndices :: "golib \<Rightarrow> cluster \<Rightarrow> string \<Rightarrow> world \<Rightarrow> error option \<times> world" where
  "DeleteIndices L srv indexPattern w =
     (case ListIndices L srv w of
        (Inl err, w1) \<Rightarrow> (Some err, w1)
      | (Inr indices, w1) \<Rightarrow>
          (let toDelete = DeleteIndices_loop L indexPattern indices []
           in if length toDelete = 0
              then (Some (Errorf (''no indices match pattern: '' @ indexPattern)), w1)
              else
                (case doRequest srv ''DELETE'' (''/'' @ Join toDelete '','') None w1 of
                   (Inl err, w2) \<Rightarrow> (Some err, w2)
                 | (Inr resp, w2) \<Rightarrow>
                     if StatusCode resp \<ge> 400
                     then (Some (Errorf (''failed to delete indices: '' @ Body resp)), w2)
                     else (None, w2))))"

fun CloseIndices_loop :: "golib \<Rightarrow> string \<Rightarrow> IndexInfo list \<Rightarrow> string list \<Rightarrow> string list" where
  "CloseIndices_loop L indexPattern [] toClose = toClose"
| "CloseIndices_loop L indexPattern (idx # indices) toClose =
     (if fst (filepath_Match L indexPattern (Name idx))
      then CloseIndices_loop L indexPattern indices (toClose @ [Name idx])
      else CloseIndices_loop L indexPattern indices toClose)"

definition CloseIndices :: "golib \<Rightarrow> cluster \<Rightarrow> string \<Rightarrow> world \<Rightarrow> error option \<times> world" where
  "CloseIndices L srv indexPattern w =
     (case ListIndices L srv w of
        (Inl err, w1) \<Rightarrow> (Some err, w1)
      | (Inr indices, w1) \<Rightarrow>
          (let toClose = CloseIndices_loop L indexPattern indices []
           in if length toClose = 0
              then (Some (Errorf (''no indices match pattern: '' @ indexPattern)), w1)
              else
                (case doRequest srv ''POST'' (''/'' @ Join toClose '','' @ ''/_close'') None w1 of
                   (Inl err, w2) \<Rightarrow> (Some err, w2)
                 | (Inr resp, w2) \<Rightarrow>
                     if StatusCode resp \<ge> 400
                     then (Some (Errorf (''failed to close indices: '' @ Body resp)), w2)
                     else (None, w2))))"

fun CleanupByAge_loop :: "string \<Rightarrow> Time \<Rightarrow> IndexInfo list \<Rightarrow> string list \<Rightarrow> string list" where
  "CleanupByAge_loop indexPrefix cutoff [] toDelete = toDelete"
| "CleanupByAge_loop indexPrefix cutoff (idx # indices) toDelete =
     (if HasPrefix (Name idx) indexPrefix \<and> Before (CreateTime idx) cutoff
      then CleanupByAge_loop indexPrefix cutoff indices (toDelete @ [Name idx])
      else CleanupByAge_loop indexPrefix cutoff indices toDelete)"

text \<open>\<^verbatim>\<open>time.Now()\<close> reads the clock of the world the call starts in.\<close>

definition CleanupByAge :: "golib \<Rightarrow> cluster \<Rightarrow> string \<Rightarrow> 64 word \<Rightarrow> world \<Rightarrow> error option \<times> world" where
  "CleanupByAge L srv indexPrefix days w =
     (let cutoff = AddDate L (Clock w) 0 0 (- days)
      in case ListIndices L srv w of
           (Inl err, w1) \<Rightarrow> (Some err, w1)
         | (Inr indices, w1) \<Rightarrow>
             (let toDelete = CleanupByAge_loop indexPrefix cutoff indices []
              in if length toDelete = 0
                 then (None, w1)
                 else
                   (case doRequest srv ''DELETE'' (''/'' @ Join toDelete '','') None w1 of
                      (Inl err, w2) \<Rightarrow> (Some err, w2)
                    | (Inr resp, w2) \<Rightarrow>
                        if StatusCode resp \<ge> 400
                        then (Some (Errorf (''failed to delete old indices: '' @ Body resp)), w2)
                        else (None, w2))))"

subsection \<open>Aliases, rollover, reindex\<close>

record AliasAction =
  Add :: gmap
  Remove :: gmap

definition AliasAction_value :: "AliasAction \<Rightarrow> gvalue" where
  "AliasAction_value a = VStruct [(''Add'', VMap (Add a)), (''Remove'', VMap (Remove a))]"

definition ManageAliases :: "golib \<Rightarrow> cluster \<Rightarrow> AliasAction list \<Rightarrow> world \<Rightarrow> error option \<times> world" where
  "ManageAliases L srv actions w =
     (let body = VMap [''actions'' \<mapsto> VSlice (map AliasAction_value actions)]
      in case json_Marshal L body of
           Inl err \<Rightarrow> (Some err, w)
         | Inr jsonBody \<Rightarrow>
             (case doRequest srv ''POST'' ''/_aliases'' (Some jsonBody) w of
                (Inl err, w1) \<Rightarrow> (Some err, w1)
              | (Inr resp, w1) \<Rightarrow>
                  if StatusCode resp \<ge> 400
                  then (Some (Errorf (''failed to manage aliases: '' @ Body resp)), w1)
                  else (None, w1)))"

definition Rollover :: "golib \<Rightarrow> cluster \<Rightarrow> string \<Rightarrow> gmap \<Rightarrow> world \<Rightarrow> error option \<times> world" where
  "Rollover L srv alias conditions w =
     (let body = VMap [''conditions'' \<mapsto> VMap conditions]
      in case json_Marshal L body of
           Inl err \<Rightarrow> (Some err, w)
         | Inr jsonBody \<Rightarrow>
             (case doRequest srv ''POST'' (''/'' @ alias @ ''/_rollover'') (Some jsonBody) w of
                (Inl err, w1) \<Rightarrow> (Some err, w1)
              | (Inr resp, w1) \<Rightarrow>
                  if StatusCode resp \<ge> 400
                  then (Some (Errorf (''failed to rollover index: '' @ Body resp)), w1)
                  else (None, w1)))"

definition Reindex :: "golib \<Rightarrow> cluster \<Rightarrow> string \<Rightarrow> string \<Rightarrow> gmap \<Rightarrow> world \<Rightarrow> error option \<times> world" where
  "Reindex L srv source dest query w =
     (let body = VMap [''source'' \<mapsto> VMap [''index'' \<mapsto> VString source, ''query'' \<mapsto> VMap query],
                       ''dest'' \<mapsto> VMap [''index'' \<mapsto> VString dest]]
      in case json_Marshal L body of
           Inl err \<Rightarrow> (Some err, w)
         | Inr jsonBody \<Rightarrow>
             (case doRequest srv ''POST'' ''/_reindex'' (Some jsonBody) w of
                (Inl err, w1) \<Rightarrow> (Some err, w1)
              | (Inr resp, w1) \<Rightarrow>
                  if StatusCode resp \<ge> 400
                  then (Some (Errorf (''failed to reindex: '' @ Body resp)), w1)
                  else (None, w1)))"

subsection \<open>Open, settings and the shrink workflow\<close>

definition OpenIndex :: "cluster \<Rightarrow> string \<Rightarrow> world \<Rightarrow> error option \<times> world" where
  "OpenIndex srv indexName w =
     (case doRequest srv ''POST'' (''/'' @ indexName @ ''/_open'') None w of
        (Inl err, w1) \<Rightarrow> (Some err, w1)
      | (Inr resp, w1) \<Rightarrow>
          if StatusCode resp \<ge> 400
          then (Some (Errorf (''failed to open index: '' @ Body resp)), w1)
          else (None, w1))"

definition UpdateIndexSettings :: "golib \<Rightarrow> cluster \<Rightarrow> string \<Rightarrow> gmap \<Rightarrow> world \<Rightarrow> error option \<times> world" where
  "UpdateIndexSettings L srv indexName settings w =
     (let body = VMap [''settings'' \<mapsto> VMap settings]
      in case json_Marshal L body of
           Inl err \<Rightarrow> (Some err, w)
         | Inr jsonBody \<Rightarrow>
             (case doRequest srv ''PUT'' (''/'' @ indexName @ ''/_settings'') (Some jsonBody) w of
                (Inl err, w1) \<Rightarrow> (Some err, w1)
              | (Inr resp, w1) \<Rightarrow>
                  if StatusCode resp \<ge> 400
                  then (Some (Errorf (''failed to update settings: '' @ Body resp)), w1)
                  else (None, w1)))"

text \<open>
  \<^verbatim>\<open>mergeSettings\<close>: a fresh map, into which every entry of \<open>base\<close> and then every
  entry of \<open>override\<close> is stored. Storing all entries of a map \<open>m\<close> into \<open>result\<close>
  gives \<open>result ++ m\<close>, whatever the order the range loop visits them in.
\<close>

definition mergeSettings :: "gmap \<Rightarrow> gmap \<Rightarrow> gmap" where
  "mergeSettings base override =
     (let result = Map.empty;
          result = result ++ base;
          result = result ++ override
      in result)"

text \<open>\<^verbatim>\<open>%d\<close> of \<^verbatim>\<open>fmt\<close>: an integer in decimal.\<close>

fun digits :: "nat \<Rightarrow> string" where
  "digits n =
     (if n < 10 then [char_of (48 + n)]
      else digits (n div 10) @ [char_of (48 + n mod 10)])"

declare digits.simps [simp del]

definition Itoa :: "int \<Rightarrow> string" where
  "Itoa i = (if i < 0 then CHR ''-'' # digits (nat (- i)) else digits (nat i))"

definition ShrinkIndex ::
  "golib \<Rightarrow> cluster \<Rightarrow> string \<Rightarrow> string \<Rightarrow> gmap \<Rightarrow> world \<Rightarrow> error option \<times> world" where
  "ShrinkIndex L srv source target settings w =
     (case CloseIndices L srv source w of
        (Some err, w1) \<Rightarrow> (Some (Wrapf ''failed to close source index: '' err), w1)
      | (None, w1) \<Rightarrow>
          (let body = VMap [''settings'' \<mapsto> VMap (mergeSettings settings
                        [''index.blocks.write'' \<mapsto> VBool True,
                         ''index.number_of_replicas'' \<mapsto> VInt 0,
                         ''index.number_of_shards'' \<mapsto> index_map settings ''number_of_shards''])]
           in case json_Marshal L body of
                Inl err \<Rightarrow> (Some (Wrapf ''failed to marshal shrink settings: '' err), w1)
              | Inr jsonBody \<Rightarrow>
                  (case doRequest srv ''POST'' (''/'' @ source @ ''/_shrink/'' @ target) (Some jsonBody) w1 of
                     (Inl err, w2) \<Rightarrow> (Some (Wrapf ''failed to execute shrink request: '' err), w2)
                   | (Inr resp, w2) \<Rightarrow>
                       if StatusCode resp \<ge> 400
                       then (Some (Errorf (''shrink failed with status '' @ Itoa (StatusCode resp)
                                            @ '': '' @ Body resp)), w2)
                       else
                         (case OpenIndex srv source w2 of
                            (Some err, w3) \<Rightarrow> (Some (Wrapf ''failed to reopen source index: '' err), w3)
                          | (None, w3) \<Rightarrow>
                              (case OpenIndex srv target w3 of
                                 (Some err, w4) \<Rightarrow> (Some (Wrapf ''failed to open target index: '' err), w4)
                               | (None, w4) \<Rightarrow>
                                   (let finalSettings =
                                          [''index.number_of_replicas'' \<mapsto> index_map settings ''number_of_replicas'',
                                           ''index.blocks.write'' \<mapsto> VNil]
                                    in case UpdateIndexSettings L srv target finalSettings w4 of
                                         (Some err, w5) \<Rightarrow> (Some (Wrapf ''failed to apply final settings: '' err), w5)
                                       | (None, w5) \<Rightarrow> (None, w5)))))))"

subsection \<open>The requests of a call\<close>

text \<open>
  The requests a call issued: those recorded between the world it started in and the
  world it ended in. The requests the operations build are named here for the
  statements; each operation above builds its own.
\<close>

definition issued :: "world \<Rightarrow> world \<Rightarrow> request list" where
  "issued w w' = drop (length (Sent w)) (Sent w')"

definition list_request :: request where
  "list_request = \<lparr>Method = ''GET'', Path = ''/_cat/indices?format=json'', ReqBody = None\<rparr>"

definition delete_request :: "string list \<Rightarrow> request" where
  "delete_request names = \<lparr>Method = ''DELETE'', Path = ''/'' @ Join names '','', ReqBody = None\<rparr>"

definition close_request :: "string list \<Rightarrow> request" where
  "close_request names =
     \<lparr>Method = ''POST'', Path = ''/'' @ Join names '','' @ ''/_close'', ReqBody = None\<rparr>"

definition shrink_request :: "string \<Rightarrow> string \<Rightarrow> string \<Rightarrow> request" where
  "shrink_request source target jsonBody =
     \<lparr>Method = ''POST'', Path = ''/'' @ source @ ''/_shrink/'' @ target, ReqBody = Some jsonBody\<rparr>"

definition open_request :: "string \<Rightarrow> request" where
  "open_request indexName =
     \<lparr>Method = ''POST'', Path = ''/'' @ indexName @ ''/_open'', ReqBody = None\<rparr>"

definition settings_request :: "string \<Rightarrow> string \<Rightarrow> request" where
  "settings_request indexName jsonBody =
     \<lparr>Method = ''PUT'', Path = ''/'' @ indexName @ ''/_settings'', ReqBody = Some jsonBody\<rparr>"

text \<open>The names a pattern selects from a listing, in the order of the listing.\<close>

definition matching :: "golib \<Rightarrow> string \<Rightarrow> IndexInfo list \<Rightarrow> string list" where
  "matching L indexPattern indices =
     filter (\<lambda>name. fst (filepath_Match L indexPattern name)) (map Name indices)"

text \<open>The names \<^verbatim>\<open>CleanupByAge\<close> selects for a prefix and a cutoff.\<close>

definition expired :: "string \<Rightarrow> Time \<Rightarrow> IndexInfo list \<Rightarrow> string list" where
  "expired indexPrefix cutoff indices =
     map Name (filter (\<lambda>idx. HasPrefix (Name idx) indexPrefix \<and> Before (CreateTime idx) cutoff) indices)"

text \<open>The settings \<^verbatim>\<open>ShrinkIndex\<close> submits with the shrink request and with the final update.\<close>

definition shrink_settings :: "gmap \<Rightarrow> gmap" where
  "shrink_settings settings =
     settings(''index.blocks.write'' \<mapsto> VBool True,
              ''index.number_of_replicas'' \<mapsto> VInt 0,
              ''index.number_of_shards'' \<mapsto> index_map settings ''number_of_shards'')"

definition final_settings :: "gmap \<Rightarrow> gmap" where
  "final_settings settings =
     [''index.number_of_replicas'' \<mapsto> index_map settings ''number_of_replicas'',
      ''index.blocks.write'' \<mapsto> VNil]"

text \<open>The requests that can follow the close step of \<^verbatim>\<open>ShrinkIndex\<close>.\<close>

definition after_close :: "string \<Rightarrow> string \<Rightarrow> request \<Rightarrow> bool" where
  "after_close source target r =
     ((\<exists>b. r = shrink_request source target b) \<or> r = open_request source \<or>
      r = open_request target \<or> (\<exists>b. r = settings_request target b))"

text \<open>What the loop of \<^verbatim>\<open>ListIndices\<close> appends for one record of the catalog.\<close>

definition IndexInfo_of :: "golib \<Rightarrow> cat_index \<Rightarrow> IndexInfo" where
  "IndexInfo_of L idx =
     \<lparr>Name = index idx, Status = status idx, DocsCount = fst (ParseInt (docs_count idx)),
      StoreSize = store_size idx, CreateTime = fst (time_Parse L (creation_date_string idx))\<rparr>"

subsection \<open>An example cluster\<close>

text \<open>
  A standard library and a cluster to run the operations on. The glob matcher knows
  \<^verbatim>\<open>*\<close> and \<^verbatim>\<open>?\<close> (neither matches a slash) and literal characters; the
  decoder knows two bodies, the empty array and one catalog of three indices; the time
  parser knows the two creation dates of that catalog, 40 and 5 days before \<open>now0\<close>.
  A day is 86400 seconds, and \<open>AddDate\<close> moves by whole days. The cluster answers
  the listing with the given status and body after 36 days, and any other request with
  status 500 when its path is in the given list and with 200 otherwise.
\<close>

fun glob :: "string \<Rightarrow> string \<Rightarrow> bool" where
  "glob [] name = (name = [])"
| "glob (p # ps) [] = (p = CHR ''*'' \<and> glob ps [])"
| "glob (p # ps) (c # cs) =
     (if p = CHR ''*'' then glob ps (c # cs) \<or> (c \<noteq> CHR ''/'' \<and> glob (p # ps) cs)
      else if p = CHR ''?'' then c \<noteq> CHR ''/'' \<and> glob ps cs
      else p = c \<and> glob ps cs)"

definition day :: int where
  "day = 86400000000000"

definition now0 :: Time where
  "now0 = 738000 * day"

definition catalog0 :: "cat_index list" where
  "catalog0 =
     [\<lparr>index = ''logs-2023-01-01'', status = ''open'', docs_count = ''42'',
       store_size = ''1kb'', creation_date_string = ''2021-07-29T00:00:00Z''\<rparr>,
      \<lparr>index = ''logs-2023-02-01'', status = ''open'', docs_count = ''n/a'',
       store_size = ''2kb'', creation_date_string = ''2021-09-02T00:00:00Z''\<rparr>,
      \<lparr>index = ''other-index'', status = ''close'', docs_count = ''9223372036854775808'',
       store_size = ''3kb'', creation_date_string = ''yesterday''\<rparr>]"

definition lib0 :: golib where
  "lib0 =
     \<lparr>json_Decode = (\<lambda>body. if body = ''[]'' then Inr []
                             else if body = ''[3]'' then Inr catalog0
                             else Inl (LibError ''json: cannot unmarshal'')),
      json_Marshal = (\<lambda>v. case v of VOther n \<Rightarrow> Inl (LibError ''json: unsupported type'')
                                   | _ \<Rightarrow> Inr ''{}''),
      filepath_Match = (\<lambda>pattern name. (glob pattern name, None)),
      time_Parse = (\<lambda>s. if s = ''2021-07-29T00:00:00Z'' then (now0 - 40 * day, None)
                         else if s = ''2021-09-02T00:00:00Z'' then (now0 - 5 * day, None)
                         else (zeroTime, Some (LibError ''parsing time''))),
      AddDate = (\<lambda>t years months days. t + sint days * day)\<rparr>"

definition cluster0 :: "int \<Rightarrow> string \<Rightarrow> string list \<Rightarrow> cluster" where
  "cluster0 list_status list_body failing w req =
     (if Method req = ''GET''
      then (Inr \<lparr>StatusCode = list_status, Body = list_body\<rparr>, Clock w + 36 * day)
      else if Path req \<in> set failing
      then (Inr \<lparr>StatusCode = 500, Body = ''boom''\<rparr>, Clock w + 1)
      else (Inr \<lparr>StatusCode = 200, Body = ''ok''\<rparr>, Clock w + 1))"

definition world0 :: world where
  "world0 = \<lparr>Sent = [], Clock = now0\<rparr>"

text \<open>What the listing of the example catalog returns, and the world after it.\<close>

definition indices0 :: "IndexInfo list" where
  "indices0 =
     [\<lparr>Name = ''logs-2023-01-01'', Status = ''open'', DocsCount = 42,
       StoreSize = ''1kb'', CreateTime = now0 - 40 * day\<rparr>,
      \<lparr>Name = ''logs-2023-02-01'', Status = ''open'', DocsCount = 0,
       StoreSize = ''2kb'', CreateTime = now0 - 5 * day\<rparr>,
      \<lparr>Name = ''other-index'', Status = ''close'', DocsCount = 9223372036854775807,
       StoreSize = ''3kb'', CreateTime = zeroTime\<rparr>]"

definition world1 :: world where
  "world1 = \<lparr>Sent = [list_request], Clock = now0 + 36 * day\<rparr>"

text \<open>The settings of the example program, and the world after listing and closing one index.\<close>

definition settings0 :: gmap where
  "settings0 = [''number_of_shards'' \<mapsto> VInt 1, ''number_of_replicas'' \<mapsto> VInt 1]"


section \<open>Properties\<close>

subsection \<open>The loops\<close>

lemma ListIndices_loop_append:
  "ListIndices_loop L indices result = result @ ListIndices_loop L indices []"
proof (induction indices arbitrary: result)
  case Nil
  show ?case by simp
next
  case (Cons idx indices)
  show ?case
    by (simp add: Let_def Cons.IH [of "result @ _"] Cons.IH [of "[_]"])
qed

lemma CleanupByAge_loop_filter:
  "CleanupByAge_loop p cutoff indices acc = acc @ expired p cutoff indices"
  by (induction indices arbitrary: acc) (simp_all add: expired_def)

lemma DeleteIndices_loop_filter:
  "DeleteIndices_loop L P indices acc = acc @ matching L P indices"
  by (induction indices arbitrary: acc) (simp_all add: matching_def)

lemma CloseIndices_loop_filter:
  "CloseIndices_loop L P indices acc = acc @ matching L P indices"
  by (induction indices arbitrary: acc) (simp_all add: matching_def)

subsection \<open>What a call sends\<close>

lemma issued_append: "Sent w' = Sent w @ xs \<Longrightarrow> issued w w' = xs"
  by (simp add: issued_def)

lemma doRequest_Sent:
  "doRequest srv method path body w = (res, w') \<Longrightarrow>
     Sent w' = Sent w @ [\<lparr>Method = method, Path = path, ReqBody = body\<rparr>]"
  by (auto simp: doRequest_def Let_def split: prod.splits)

lemma ListIndices_Sent:
  "ListIndices L srv w = (res, w1) \<Longrightarrow> Sent w1 = Sent w @ [list_request]"
  by (auto simp: ListIndices_def list_request_def dest!: doRequest_Sent split: prod.splits sum.splits)

subsection \<open>The example cluster\<close>

lemma ParseInt_examples:
  "ParseInt ''42'' = (42, None)"
  "ParseInt ''n/a'' = (0, Some ErrSyntax)"
  "ParseInt ''9223372036854775808'' = (9223372036854775807, Some ErrRange)"
  by (simp_all add: ParseInt_def ParseUint_def maxUint64_def lower_def word_le_nat_alt word_less_nat_alt)

lemma ListIndices_example:
  "ListIndices lib0 (cluster0 200 ''[3]'' failing) world0 = (Inr indices0, world1)"
  by (simp add: ListIndices_def doRequest_def cluster0_def lib0_def world0_def world1_def catalog0_def
      indices0_def list_request_def ParseInt_examples)

lemma matching_examples:
  "matching lib0 ''metrics-*'' indices0 = []"
  "matching lib0 ''logs-*'' indices0 = [''logs-2023-01-01'', ''logs-2023-02-01'']"
  "matching lib0 ''logs-2023-01-01'' indices0 = [''logs-2023-01-01'']"
  by (simp_all add: matching_def lib0_def indices0_def)






subsection \<open>Settings merge\<close>

lemma mergeSettings_add: "mergeSettings base override = base ++ override"
  by (simp add: mergeSettings_def)

text \<open>
  Claim C8. The merge is right-biased: a key of \<open>override\<close> has the value of
  \<open>override\<close> in the result, a key that \<open>override\<close> does not have has the value (or
  the absence) it has in \<open>base\<close>, the keys of the result are those of the two maps,
  and merging \<open>{a: 1, b: 2}\<close> with \<open>{b: 3}\<close> gives \<open>{a: 1, b: 3}\<close>.
\<close>

theorem mergeSettings_right_biased:
  "(\<forall>k v. override k = Some v \<longrightarrow> mergeSettings base override k = Some v) \<and>
   (\<forall>k. override k = None \<longrightarrow> mergeSettings base override k = base k) \<and>
   dom (mergeSettings base override) = dom base \<union> dom override \<and>
   mergeSettings [''a'' \<mapsto> VInt 1, ''b'' \<mapsto> VInt 2] [''b'' \<mapsto> VInt 3]
     = [''a'' \<mapsto> VInt 1, ''b'' \<mapsto> VInt 3]"
  by (auto simp: mergeSettings_add map_add_def fun_eq_iff split: option.splits)

theorem mergeSettings_right_biased_witness:
  "mergeSettings [''a'' \<mapsto> VInt 1, ''b'' \<mapsto> VInt 2] [''b'' \<mapsto> VInt 3] ''b'' = Some (VInt 3) \<and>
   mergeSettings [''a'' \<mapsto> VInt 1, ''b'' \<mapsto> VInt 2] [''b'' \<mapsto> VInt 3] ''a'' = Some (VInt 1) \<and>
   dom (mergeSettings [''a'' \<mapsto> VInt 1, ''b'' \<mapsto> VInt 2] [''b'' \<mapsto> VInt 3]) = {''a'', ''b''}"
  using mergeSettings_right_biased [of "[''b'' \<mapsto> VInt 3]" "[''a'' \<mapsto> VInt 1, ''b'' \<mapsto> VInt 2]"]
  by auto

subsection \<open>Delete and close by pattern\<close>

text \<open>
  Claim C4. When the listing succeeds and no listed name matches the pattern,
  \<^verbatim>\<open>DeleteIndices\<close> and \<^verbatim>\<open>CloseIndices\<close> both fail with the error
  \<^verbatim>\<open>no indices match pattern: <pattern>\<close>, and the only request issued is the listing: no
  bulk delete or close request.
\<close>

theorem no_match_is_an_error:
  assumes "ListIndices L srv w = (Inr indices, w1)"
    and "\<forall>idx \<in> set indices. \<not> fst (filepath_Match L P (Name idx))"
  shows "DeleteIndices L srv P w = (Some (Errorf (''no indices match pattern: '' @ P)), w1) \<and>
         CloseIndices L srv P w = (Some (Errorf (''no indices match pattern: '' @ P)), w1) \<and>
         issued w w1 = [list_request]"
proof -
  have "matching L P indices = []"
    using assms(2) by (auto simp: matching_def filter_empty_conv)
  then show ?thesis
    using assms(1)
    by (simp add: DeleteIndices_def CloseIndices_def DeleteIndices_loop_filter
        CloseIndices_loop_filter issued_append [OF ListIndices_Sent])
qed

theorem no_match_is_an_error_witness:
  "DeleteIndices lib0 (cluster0 200 ''[3]'' []) ''metrics-*'' world0
     = (Some (Errorf ''no indices match pattern: metrics-*''), world1) \<and>
   CloseIndices lib0 (cluster0 200 ''[3]'' []) ''metrics-*'' world0
     = (Some (Errorf ''no indices match pattern: metrics-*''), world1) \<and>
   issued world0 world1 = [list_request]"
proof -
  have "\<forall>idx \<in> set indices0. \<not> fst (filepath_Match lib0 ''metrics-*'' (Name idx))"
    by (simp add: lib0_def indices0_def)
  from no_match_is_an_error [OF ListIndices_example this] show ?thesis by simp
qed



subsection \<open>Cleanup by age\<close>

text \<open>
  Claim C6. \<^verbatim>\<open>CleanupByAge\<close> takes its cutoff from the clock of the world the call starts
  in, before the listing: the day count subtracted from that time. It selects the
  listed indices whose name starts with the prefix and whose creation time is strictly
  before the cutoff. When none is selected, it returns no error and issues the listing
  only; otherwise it issues, after the listing, one delete request naming the selection.
\<close>

theorem CleanupByAge_cutoff_and_selection:
  assumes "ListIndices L srv w = (Inr indices, w1)"
    and "cutoff = AddDate L (Clock w) 0 0 (- days)"
    and "sel = map Name (filter (\<lambda>idx. HasPrefix (Name idx) indexPrefix \<and> CreateTime idx < cutoff) indices)"
  shows "(sel = [] \<longrightarrow>
            CleanupByAge L srv indexPrefix days w = (None, w1) \<and> issued w w1 = [list_request]) \<and>
         (sel \<noteq> [] \<longrightarrow>
            issued w (snd (CleanupByAge L srv indexPrefix days w)) = [list_request, delete_request sel])"
proof -
  have sel: "expired indexPrefix (AddDate L (Clock w) 0 0 (- days)) indices = sel"
    by (simp add: assms(2,3) expired_def Before_def)
  note s1 = ListIndices_Sent [OF assms(1)]
  show ?thesis
  proof (intro conjI impI)
    assume "sel = []"
    then show "CleanupByAge L srv indexPrefix days w = (None, w1)"
      using assms(1) sel by (simp add: CleanupByAge_def CleanupByAge_loop_filter)
    show "issued w w1 = [list_request]"
      using s1 by (rule issued_append)
  next
    assume ne: "sel \<noteq> []"
    obtain r2 w2 where d: "doRequest srv ''DELETE'' (''/'' @ Join sel '','') None w1 = (r2, w2)"
      by (cases "doRequest srv ''DELETE'' (''/'' @ Join sel '','') None w1")
    have "snd (CleanupByAge L srv indexPrefix days w) = w2"
      using assms(1) sel ne d
      by (simp add: CleanupByAge_def CleanupByAge_loop_filter split: sum.splits)
    moreover have "Sent w2 = Sent w @ [list_request, delete_request sel]"
      using doRequest_Sent [OF d] s1 by (simp add: delete_request_def)
    ultimately show "issued w (snd (CleanupByAge L srv indexPrefix days w))
        = [list_request, delete_request sel]"
      by (simp add: issued_append)
  qed
qed

theorem CleanupByAge_cutoff_and_selection_witness:
  "issued world0 (snd (CleanupByAge lib0 (cluster0 200 ''[3]'' []) ''logs-'' 30 world0))
     = [list_request, \<lparr>Method = ''DELETE'', Path = ''/logs-2023-01-01'', ReqBody = None\<rparr>] \<and>
   CleanupByAge lib0 (cluster0 200 ''[3]'' []) ''metrics-'' 30 world0 = (None, world1)"
proof -
  have cut: "now0 - 30 * day = AddDate lib0 (Clock world0) 0 0 (- 30)"
    by (simp add: lib0_def world0_def)
  have s1: "[''logs-2023-01-01''] = map Name (filter (\<lambda>idx. HasPrefix (Name idx) ''logs-'' \<and>
              CreateTime idx < now0 - 30 * day) indices0)"
    by (simp add: indices0_def HasPrefix_def zeroTime_def now0_def day_def)
  have s2: "[] = map Name (filter (\<lambda>idx. HasPrefix (Name idx) ''metrics-'' \<and>
              CreateTime idx < now0 - 30 * day) indices0)"
    by (simp add: indices0_def HasPrefix_def)
  have l: "ListIndices lib0 (cluster0 200 ''[3]'' []) world0 = (Inr indices0, world1)"
    by (rule ListIndices_example)
  from CleanupByAge_cutoff_and_selection [OF l cut s1]
    CleanupByAge_cutoff_and_selection [OF l cut s2]
  show ?thesis
    by (simp add: delete_request_def)
qed

subsection \<open>The listing\<close>



lemma ListIndices_loop_map:
  "ListIndices_loop L indices result = result @ map (IndexInfo_of L) indices"
  by (induction indices arbitrary: result) (simp_all add: IndexInfo_of_def)




subsection \<open>The status of a response\<close>

text \<open>
  The other operations check the status of the response to their own request, and fail
  with its body behind a prefix.
\<close>

lemma siblings_check_status:
  assumes "StatusCode resp \<ge> 400"
  shows "doRequest srv ''POST'' (''/'' @ n @ ''/_open'') None w = (Inr resp, w1) \<Longrightarrow>
           OpenIndex srv n w = (Some (Errorf (''failed to open index: '' @ Body resp)), w1)"
    and "json_Marshal L (VMap [''settings'' \<mapsto> VMap s]) = Inr jb \<Longrightarrow>
         doRequest srv ''PUT'' (''/'' @ n @ ''/_settings'') (Some jb) w = (Inr resp, w1) \<Longrightarrow>
           UpdateIndexSettings L srv n s w
             = (Some (Errorf (''failed to update settings: '' @ Body resp)), w1)"
    and "json_Marshal L (VMap [''conditions'' \<mapsto> VMap s]) = Inr jb \<Longrightarrow>
         doRequest srv ''POST'' (''/'' @ n @ ''/_rollover'') (Some jb) w = (Inr resp, w1) \<Longrightarrow>
           Rollover L srv n s w = (Some (Errorf (''failed to rollover index: '' @ Body resp)), w1)"
    and "json_Marshal L (VMap [''actions'' \<mapsto> VSlice (map AliasAction_value actions)]) = Inr jb \<Longrightarrow>
         doRequest srv ''POST'' ''/_aliases'' (Some jb) w = (Inr resp, w1) \<Longrightarrow>
           ManageAliases L srv actions w
             = (Some (Errorf (''failed to manage aliases: '' @ Body resp)), w1)"
    and "ListIndices L srv w = (Inr indices, wl) \<Longrightarrow> matching L P indices \<noteq> [] \<Longrightarrow>
         doRequest srv ''DELETE'' (''/'' @ Join (matching L P indices) '','') None wl = (Inr resp, w1) \<Longrightarrow>
           DeleteIndices L srv P w = (Some (Errorf (''failed to delete indices: '' @ Body resp)), w1)"
    and "ListIndices L srv w = (Inr indices, wl) \<Longrightarrow> matching L P indices \<noteq> [] \<Longrightarrow>
         doRequest srv ''POST'' (''/'' @ Join (matching L P indices) '','' @ ''/_close'') None wl
           = (Inr resp, w1) \<Longrightarrow>
           CloseIndices L srv P w = (Some (Errorf (''failed to close indices: '' @ Body resp)), w1)"
  using assms
  by (simp_all add: OpenIndex_def UpdateIndexSettings_def Rollover_def ManageAliases_def
      DeleteIndices_def CloseIndices_def DeleteIndices_loop_filter CloseIndices_loop_filter)

lemma ListIndices_any_status:
  "doRequest srv ''GET'' ''/_cat/indices?format=json'' None w = (Inr resp, w1) \<Longrightarrow>
   ListIndices L srv w =
     (case json_Decode L (Body resp) of
        Inl err \<Rightarrow> (Inl err, w1)
      | Inr records \<Rightarrow> (Inr (map (IndexInfo_of L) records), w1))"
  by (simp add: ListIndices_def ListIndices_loop_map split: sum.splits)

text \<open>
  Claim C1. Every operation is to fail, with an error carrying the body of the response, when
  the response to its request has a status of 400 or more. \<^verbatim>\<open>ListIndices\<close> never reads the
  status: a response \<^verbatim>\<open>500\<close> with the body \<^verbatim>\<open>[]\<close> is an empty listing with no error,
  and a response \<^verbatim>\<open>401\<close> with the body \<^verbatim>\<open>Unauthorized\<close> is the error of the decoder,
  which does not carry the body.
\<close>

theorem ListIndices_ignores_status:
  "ListIndices lib0 (cluster0 500 ''[]'' []) world0 = (Inr [], world1) \<and>
   ListIndices lib0 (cluster0 401 ''Unauthorized'' []) world0
     = (Inl (LibError ''json: cannot unmarshal''), world1)"
  by (simp add: ListIndices_def doRequest_def cluster0_def lib0_def world0_def world1_def
      list_request_def)

subsection \<open>The shrink workflow\<close>

lemma shrink_settings_merge:
  "mergeSettings settings
     [''index.blocks.write'' \<mapsto> VBool True,
      ''index.number_of_replicas'' \<mapsto> VInt 0,
      ''index.number_of_shards'' \<mapsto> index_map settings ''number_of_shards'']
   = shrink_settings settings"
  by (simp add: mergeSettings_add shrink_settings_def)

lemma OpenIndex_Sent:
  "OpenIndex srv n w = (res, w') \<Longrightarrow> Sent w' = Sent w @ [open_request n]"
  by (auto simp: OpenIndex_def open_request_def dest!: doRequest_Sent split: prod.splits sum.splits if_splits)


lemma UpdateIndexSettings_Sent_cases:
  "UpdateIndexSettings L srv n s w = (res, w') \<Longrightarrow>
     Sent w' = Sent w \<or> (\<exists>b. Sent w' = Sent w @ [settings_request n b])"
  by (auto simp: UpdateIndexSettings_def settings_request_def dest!: doRequest_Sent
      split: prod.splits sum.splits if_splits)



lemma open_not_close: "open_request n \<noteq> close_request names"
proof
  assume "open_request n = close_request names"
  then have "n @ ''/_open'' = Join names '','' @ ''/_close''"
    by (simp add: open_request_def close_request_def)
  then have "last (n @ ''/_open'') = last (Join names '','' @ ''/_close'')"
    by simp
  then show False by simp
qed

lemma request_kinds_distinct:
  "open_request n \<noteq> list_request"
  "open_request n \<noteq> shrink_request s t b"
  "settings_request n b \<noteq> list_request"
  "settings_request n b \<noteq> close_request names"
  "settings_request n b \<noteq> shrink_request s t b'"
  "settings_request n b \<noteq> open_request n'"
  "shrink_request s t b \<noteq> list_request"
  "shrink_request s t b \<noteq> close_request names"
  by (simp_all add: open_request_def list_request_def shrink_request_def settings_request_def
      close_request_def)

lemma close_not_after:
  "close_request names \<noteq> shrink_request s t b"
  "close_request names \<noteq> open_request n"
  "close_request names \<noteq> settings_request n b"
  using open_not_close [of n names] request_kinds_distinct(4) [of n b names]
    request_kinds_distinct(8) [of s t b names]
  by (simp_all add: eq_commute)

lemma ShrinkIndex_close_fails:
  assumes "CloseIndices L srv source w = (Some e, w1)"
  shows "ShrinkIndex L srv source target settings w
           = (Some (Wrapf ''failed to close source index: '' e), w1)"
  using assms by (simp add: ShrinkIndex_def)

lemma ShrinkIndex_submit_fails:
  assumes "CloseIndices L srv source w = (None, w1)"
    and "json_Marshal L (VMap [''settings'' \<mapsto> VMap (shrink_settings settings)]) = Inr jb"
    and "doRequest srv ''POST'' (''/'' @ source @ ''/_shrink/'' @ target) (Some jb) w1 = (res, w2)"
    and "case res of Inl e \<Rightarrow> True | Inr resp \<Rightarrow> StatusCode resp \<ge> 400"
  shows "ShrinkIndex L srv source target settings w =
           (Some (case res of
                    Inl e \<Rightarrow> Wrapf ''failed to execute shrink request: '' e
                  | Inr resp \<Rightarrow> Errorf (''shrink failed with status '' @ Itoa (StatusCode resp)
                                            @ '': '' @ Body resp)), w2)"
  using assms by (simp add: ShrinkIndex_def shrink_settings_merge split: sum.splits)



lemma ShrinkIndex_after_close:
  assumes "CloseIndices L srv source w = (None, w1)"
  shows "\<exists>rest. Sent (snd (ShrinkIndex L srv source target settings w)) = Sent w1 @ rest \<and>
           (\<forall>r \<in> set rest. after_close source target r)"
proof (cases "json_Marshal L (VMap [''settings'' \<mapsto> VMap (shrink_settings settings)])")
  case (Inl e)
  with assms show ?thesis
    by (simp add: ShrinkIndex_def shrink_settings_merge)
next
  case (Inr jb)
  obtain res w2 where d:
    "doRequest srv ''POST'' (''/'' @ source @ ''/_shrink/'' @ target) (Some jb) w1 = (res, w2)"
    by (cases "doRequest srv ''POST'' (''/'' @ source @ ''/_shrink/'' @ target) (Some jb) w1")
  have s2: "Sent w2 = Sent w1 @ [shrink_request source target jb]"
    using doRequest_Sent [OF d] by (simp add: shrink_request_def)
  show ?thesis
  proof (cases "case res of Inl e \<Rightarrow> True | Inr resp \<Rightarrow> StatusCode resp \<ge> 400")
    case True
    from ShrinkIndex_submit_fails [OF assms Inr d True] s2 show ?thesis
      by (auto simp: after_close_def)
  next
    case False
    then obtain resp where r: "res = Inr resp" "StatusCode resp < 400"
      by (cases res) auto
    obtain e3 w3 where o1: "OpenIndex srv source w2 = (e3, w3)"
      by (cases "OpenIndex srv source w2")
    have s3: "Sent w3 = Sent w1 @ [shrink_request source target jb, open_request source]"
      using OpenIndex_Sent [OF o1] s2 by simp
    show ?thesis
    proof (cases e3)
      case (Some e)
      with assms Inr d r o1 s3 show ?thesis
        by (auto simp: ShrinkIndex_def shrink_settings_merge after_close_def)
    next
      case None
      obtain e4 w4 where o2: "OpenIndex srv target w3 = (e4, w4)"
        by (cases "OpenIndex srv target w3")
      have s4: "Sent w4 = Sent w1 @ [shrink_request source target jb, open_request source,
                  open_request target]"
        using OpenIndex_Sent [OF o2] s3 by simp
      show ?thesis
      proof (cases e4)
        case (Some e)
        with assms Inr d r o1 None o2 s4 show ?thesis
          by (auto simp: ShrinkIndex_def shrink_settings_merge after_close_def)
      next
        case n4: None
        obtain e5 w5 where u: "UpdateIndexSettings L srv target (final_settings settings) w4 = (e5, w5)"
          by (cases "UpdateIndexSettings L srv target (final_settings settings) w4")
        have fin: "snd (ShrinkIndex L srv source target settings w) = w5"
          using assms Inr d r o1 None o2 n4 u
          by (auto simp: ShrinkIndex_def shrink_settings_merge final_settings_def split: option.splits)
        from UpdateIndexSettings_Sent_cases [OF u] s4 fin show ?thesis
          by (auto simp: after_close_def)
      qed
    qed
  qed
qed







text \<open>
  Claim C10. The close step of \<^verbatim>\<open>ShrinkIndex\<close> matches the source argument as a pattern
  against the listed names. When the listing succeeds and no listed name matches (the
  source index does not exist, say), the workflow fails with
  \<^verbatim>\<open>failed to close source index: no indices match pattern: <source>\<close> having issued the
  listing only. When some names match, the one close request of the workflow names all of
  them, in the order of the listing.
\<close>

theorem ShrinkIndex_closes_by_pattern:
  assumes "ListIndices L srv w = (Inr indices, w1)"
  shows "(matching L source indices = [] \<longrightarrow>
            ShrinkIndex L srv source target settings w
              = (Some (Wrapf ''failed to close source index: ''
                   (Errorf (''no indices match pattern: '' @ source))), w1) \<and>
            issued w w1 = [list_request]) \<and>
         (matching L source indices \<noteq> [] \<longrightarrow>
            (\<exists>rest. issued w (snd (ShrinkIndex L srv source target settings w))
               = [list_request, close_request (matching L source indices)] @ rest \<and>
               (\<forall>names. close_request names \<notin> set rest)))"
proof (intro conjI impI)
  assume e: "matching L source indices = []"
  then have c: "CloseIndices L srv source w
           = (Some (Errorf (''no indices match pattern: '' @ source)), w1)"
    using assms by (simp add: CloseIndices_def CloseIndices_loop_filter)
  then show "ShrinkIndex L srv source target settings w
              = (Some (Wrapf ''failed to close source index: ''
                   (Errorf (''no indices match pattern: '' @ source))), w1)"
    by (rule ShrinkIndex_close_fails)
  show "issued w w1 = [list_request]"
    using ListIndices_Sent [OF assms] by (rule issued_append)
next
  assume ne: "matching L source indices \<noteq> []"
  obtain r3 w3 where c: "doRequest srv ''POST'' (''/'' @ Join (matching L source indices) '','' @ ''/_close'') None w1 = (r3, w3)"
    by (cases "doRequest srv ''POST'' (''/'' @ Join (matching L source indices) '','' @ ''/_close'') None w1")
  have s3: "Sent w3 = Sent w @ [list_request, close_request (matching L source indices)]"
    using doRequest_Sent [OF c] ListIndices_Sent [OF assms] by (simp add: close_request_def)
  obtain e3 wc where cl0: "CloseIndices L srv source w = (e3, wc)"
    by (cases "CloseIndices L srv source w")
  have "wc = w3"
    using assms ne c cl0
    by (auto simp: CloseIndices_def CloseIndices_loop_filter split: sum.splits if_splits)
  with cl0 have cl: "CloseIndices L srv source w = (e3, w3)"
    by simp
  show "\<exists>rest. issued w (snd (ShrinkIndex L srv source target settings w))
               = [list_request, close_request (matching L source indices)] @ rest \<and>
               (\<forall>names. close_request names \<notin> set rest)"
  proof (cases e3)
    case (Some e)
    with cl ShrinkIndex_close_fails [of L srv source w e w3 target settings] s3
    show ?thesis by (simp add: issued_def)
  next
    case None
    with cl ShrinkIndex_after_close [of L srv source w w3 target settings] obtain rest where
      "Sent (snd (ShrinkIndex L srv source target settings w)) = Sent w3 @ rest"
      "\<forall>r \<in> set rest. after_close source target r"
      by blast
    with s3 show ?thesis
      by (auto simp: issued_def after_close_def close_not_after)
  qed
qed

theorem ShrinkIndex_closes_by_pattern_witness:
  "ShrinkIndex lib0 (cluster0 200 ''[3]'' []) ''logs-2023-03-01'' ''logs-small'' settings0 world0
     = (Some (Wrapf ''failed to close source index: ''
          (Errorf ''no indices match pattern: logs-2023-03-01'')), world1) \<and>
   (\<exists>rest. issued world0 (snd (ShrinkIndex lib0 (cluster0 200 ''[3]'' []) ''logs-*''
                ''logs-small'' settings0 world0))
      = [list_request,
         \<lparr>Method = ''POST'', Path = ''/logs-2023-01-01,logs-2023-02-01/_close'', ReqBody = None\<rparr>]
        @ rest)"
proof -
  have n: "matching lib0 ''logs-2023-03-01'' indices0 = []"
    by (simp add: matching_def lib0_def indices0_def)
  have p: "matching lib0 ''logs-*'' indices0 \<noteq> []"
    by (simp add: matching_examples)
  have l: "ListIndices lib0 (cluster0 200 ''[3]'' []) world0 = (Inr indices0, world1)"
    by (rule ListIndices_example)
  from ShrinkIndex_closes_by_pattern [OF l, where source = "''logs-2023-03-01''"
      and target = "''logs-small''" and settings = settings0] n
    ShrinkIndex_closes_by_pattern [OF l, where source = "''logs-*''"
      and target = "''logs-small''" and settings = settings0] p
  show ?thesis
    by (auto simp: matching_examples close_request_def)
qed

end
